theory Spec2Isabelle
  imports Main "HOL-Library.Word"
begin

section \<open>The text catalog \<open>i18n_lang\<close>\<close>

text \<open>
  The class template \<open>i18n_lang<LangType, TextType, TextIdType, DefaultErrorText>\<close> is
  modelled for an arbitrary language type \<open>'l\<close> and text-id type \<open>'i\<close>, with the default
  text type \<open>std::u32string\<close> (a sequence of 32-bit code units) and the default
  \<open>DefaultErrorText = U"TEXT_NOT_FOUND"\<close>.
\<close>

type_synonym char32 = "32 word"
type_synonym text_t = "char32 list"

text \<open>A \<open>U"..."\<close> literal of ASCII characters: one 32-bit unit for each character.\<close>

definition U :: "string \<Rightarrow> text_t" where
  "U s = map (\<lambda>c. word_of_nat (of_char c)) s"

subsection \<open>\<open>std::unordered_map\<close>\<close>

text \<open>
  An \<open>unordered_map<K, V>\<close> is a map \<open>'k \<rightharpoonup> 'v\<close>. \<open>find\<close> gives the entry or
  \<open>end()\<close> (\<open>None\<close>) and leaves the container alone. \<open>operator[]\<close> inserts a
  value-initialised entry when the key is missing and gives the (possibly new) container
  together with the value the returned reference points to. \<open>insert(value)\<close> adds the
  pair only when the key is missing, and \<open>insert(first, last)\<close> does so for each element
  of the range in turn.
\<close>

definition umap_find :: "('k \<rightharpoonup> 'v) \<Rightarrow> 'k \<Rightarrow> 'v option" where
  "umap_find m k = m k"

definition umap_index :: "'v \<Rightarrow> ('k \<rightharpoonup> 'v) \<Rightarrow> 'k \<Rightarrow> ('k \<rightharpoonup> 'v) \<times> 'v" where
  "umap_index dflt m k = (case m k of Some v \<Rightarrow> (m, v) | None \<Rightarrow> (m(k \<mapsto> dflt), dflt))"

definition umap_insert :: "('k \<rightharpoonup> 'v) \<Rightarrow> 'k \<times> 'v \<Rightarrow> ('k \<rightharpoonup> 'v)" where
  "umap_insert m kv = (case m (fst kv) of Some _ \<Rightarrow> m | None \<Rightarrow> m(fst kv \<mapsto> snd kv))"

fun umap_insert_range :: "('k \<rightharpoonup> 'v) \<Rightarrow> ('k \<times> 'v) list \<Rightarrow> ('k \<rightharpoonup> 'v)" where
  "umap_insert_range m [] = m"
| "umap_insert_range m (kv # kvs) = umap_insert_range (umap_insert m kv) kvs"

subsection \<open>The class\<close>

type_synonym 'i text_map = "'i \<rightharpoonup> text_t"
type_synonym ('l, 'i) lang_text_map = "'l \<rightharpoonup> 'i text_map"

record ('l, 'i) i18n_lang =
  default_lang :: 'l
  texts :: "('l, 'i) lang_text_map"

text \<open>The two constructors.\<close>

definition i18n_lang_new :: "'l \<Rightarrow> ('l, 'i) i18n_lang" where
  "i18n_lang_new dl = \<lparr>default_lang = dl, texts = Map.empty\<rparr>"

definition i18n_lang_new_texts :: "'l \<Rightarrow> ('l, 'i) lang_text_map \<Rightarrow> ('l, 'i) i18n_lang" where
  "i18n_lang_new_texts dl ts = \<lparr>default_lang = dl, texts = ts\<rparr>"

text \<open>\<open>get_default_error_text\<close>: a static member, it takes no object.\<close>

definition get_default_error_text :: text_t where
  "get_default_error_text = U ''TEXT_NOT_FOUND''"

text \<open>
  \<open>set_text\<close>: \<open>texts_[lang][text_id] = std::move(text); return *this;\<close>. Both
  \<open>operator[]\<close> calls may insert; the assignment goes through the inner reference, and the
  changed bucket is the one held by \<open>texts_\<close>.
\<close>

definition set_text :: "('l, 'i) i18n_lang \<Rightarrow> 'l \<Rightarrow> 'i \<Rightarrow> text_t \<Rightarrow> ('l, 'i) i18n_lang" where
  "set_text self lang text_id text =
     (let (ts, bucket) = umap_index Map.empty (texts self) lang;
          (bucket', _) = umap_index [] bucket text_id
      in self\<lparr>texts := ts(lang \<mapsto> bucket'(text_id \<mapsto> text))\<rparr>)"

text \<open>
  \<open>set_texts\<close>: \<open>texts_[lang].insert(texts.begin(), texts.end()); return *this;\<close>. The
  argument is the sequence of pairs that iterating the argument map yields.
\<close>

definition set_texts ::
  "('l, 'i) i18n_lang \<Rightarrow> 'l \<Rightarrow> ('i \<times> text_t) list \<Rightarrow> ('l, 'i) i18n_lang" where
  "set_texts self lang entries =
     (let (ts, bucket) = umap_index Map.empty (texts self) lang
      in self\<lparr>texts := ts(lang \<mapsto> umap_insert_range bucket entries)\<rparr>)"

text \<open>
  \<open>get_text\<close>: the two nested \<open>find\<close>s on the requested language, then the same on
  \<open>default_lang_\<close>, then the error text. The object is passed through, so that what the
  call does to it can be stated.
\<close>

definition get_text :: "('l, 'i) i18n_lang \<Rightarrow> 'l \<Rightarrow> 'i \<Rightarrow> text_t \<times> ('l, 'i) i18n_lang" where
  "get_text self lang text_id =
     (case Option.bind (umap_find (texts self) lang) (\<lambda>m. umap_find m text_id) of
        Some t \<Rightarrow> (t, self)
      | None \<Rightarrow>
          (case Option.bind (umap_find (texts self) (default_lang self))
                  (\<lambda>m. umap_find m text_id) of
             Some t \<Rightarrow> (t, self)
           | None \<Rightarrow> (get_default_error_text, self)))"

text \<open>The public calls on an object, and a sequence of them.\<close>

datatype ('l, 'i) call =
  Set_text 'l 'i text_t
| Set_texts 'l "('i \<times> text_t) list"
| Get_text 'l 'i

fun exec :: "('l, 'i) i18n_lang \<Rightarrow> ('l, 'i) call \<Rightarrow> ('l, 'i) i18n_lang" where
  "exec self (Set_text lang text_id text) = set_text self lang text_id text"
| "exec self (Set_texts lang entries) = set_texts self lang entries"
| "exec self (Get_text lang text_id) = snd (get_text self lang text_id)"

fun exec_all :: "('l, 'i) i18n_lang \<Rightarrow> ('l, 'i) call list \<Rightarrow> ('l, 'i) i18n_lang" where
  "exec_all self [] = self"
| "exec_all self (c # cs) = exec_all (exec self c) cs"

text \<open>
  Vocabulary of the statements: the bucket of a language (no entries when the language is
  not a key of \<open>texts_\<close>).
\<close>

definition bucket :: "('l, 'i) i18n_lang \<Rightarrow> 'l \<Rightarrow> 'i text_map" where
  "bucket self lang = (case texts self lang of None \<Rightarrow> Map.empty | Some m \<Rightarrow> m)"

section \<open>The locale resolver \<open>get_sys_lang\<close>\<close>

text \<open>
  \<open>get_sys_lang\<close> has one body for each platform family, chosen by the preprocessor.
  A byte string is a \<open>string\<close>. What the operating system answers is an argument of the
  model.
\<close>

definition DEFAULT_LANGUAGE :: string where
  "DEFAULT_LANGUAGE = ''en-US''"

subsection \<open>Library functions\<close>

text \<open>\<open>std::replace(first, last, old_value, new_value)\<close> over a whole string.\<close>

definition std_replace :: "string \<Rightarrow> char \<Rightarrow> char \<Rightarrow> string" where
  "std_replace s old_value new_value = map (\<lambda>c. if c = old_value then new_value else c) s"

text \<open>
  \<open>s.find(ch, pos)\<close>: the first index \<open>\<ge> pos\<close> that holds \<open>ch\<close>; \<open>npos\<close> is \<open>None\<close>.
\<close>

fun find_scan :: "char \<Rightarrow> string \<Rightarrow> nat \<Rightarrow> nat option" where
  "find_scan ch [] i = None"
| "find_scan ch (c # cs) i = (if c = ch then Some i else find_scan ch cs (Suc i))"

definition str_find :: "string \<Rightarrow> char \<Rightarrow> nat \<Rightarrow> nat option" where
  "str_find s ch pos = find_scan ch (drop pos s) pos"

text \<open>\<open>s.erase(pos)\<close> and \<open>s.substr(0, n)\<close>, both called with an index inside \<open>s\<close>.\<close>

definition str_erase :: "string \<Rightarrow> nat \<Rightarrow> string" where
  "str_erase s pos = take pos s"

definition str_substr0 :: "string \<Rightarrow> nat \<Rightarrow> string" where
  "str_substr0 s n = take n s"

text \<open>\<open>s.resize(n)\<close>: cut, or fill with the null character.\<close>

definition str_resize :: "string \<Rightarrow> nat \<Rightarrow> string" where
  "str_resize s n = take n s @ replicate (n - length s) (CHR 0x00)"

text \<open>
  \<open>::tolower\<close> and \<open>::toupper\<close> in the "C" locale (the function never calls
  \<open>setlocale\<close>): the 26 letters of the other case are mapped, every other character is
  returned as it is.
\<close>

definition upper_letters :: string where
  "upper_letters = ''ABCDEFGHIJKLMNOPQRSTUVWXYZ''"

definition lower_letters :: string where
  "lower_letters = ''abcdefghijklmnopqrstuvwxyz''"

definition tolower :: "char \<Rightarrow> char" where
  "tolower c = (case map_of (zip upper_letters lower_letters) c of Some d \<Rightarrow> d | None \<Rightarrow> c)"

definition toupper :: "char \<Rightarrow> char" where
  "toupper c = (case map_of (zip lower_letters upper_letters) c of Some d \<Rightarrow> d | None \<Rightarrow> c)"

text \<open>
  \<open>std::transform(s.begin() + i, s.begin() + j, s.begin() + i, f)\<close>: \<open>f\<close> applied in
  place to the characters at the indices \<open>i \<le> k < j\<close>.
\<close>

definition transform_range :: "(char \<Rightarrow> char) \<Rightarrow> nat \<Rightarrow> nat \<Rightarrow> string \<Rightarrow> string" where
  "transform_range f i j s = take i s @ map f (take (j - i) (drop i s)) @ drop j s"

subsection \<open>The POSIX body\<close>

text \<open>
  From \<open>std::string result = lang;\<close> to \<open>return result;\<close>, as a function of the value
  of the environment variable that was chosen.
\<close>

definition posix_normalize :: "string \<Rightarrow> string" where
  "posix_normalize lang =
     (let result = lang in
      if result = ''C'' \<or> result = ''POSIX'' then DEFAULT_LANGUAGE
      else
        let result = std_replace result (CHR ''_'') (CHR ''-'');
            result =
              (case str_find result (CHR ''-'') 0 of
                 Some dash_pos \<Rightarrow>
                   if dash_pos + 1 < length result
                   then transform_range toupper (dash_pos + 1) (length result)
                          (transform_range tolower 0 dash_pos result)
                   else result
               | None \<Rightarrow> result);
            result =
              (case str_find result (CHR ''.'') 0 of
                 Some dotPos \<Rightarrow> str_substr0 result dotPos
               | None \<Rightarrow> result);
            result =
              (case str_find result (CHR ''@'') 0 of
                 Some atPos \<Rightarrow> str_substr0 result atPos
               | None \<Rightarrow> result)
        in result)"

text \<open>
  \<open>std::getenv\<close> gives a null pointer (\<open>None\<close>) or the value. The test
  \<open>!lang || lang[0] == '\0'\<close> is \<open>null_or_empty\<close>.
\<close>

definition null_or_empty :: "string option \<Rightarrow> bool" where
  "null_or_empty lang = (case lang of None \<Rightarrow> True | Some v \<Rightarrow> v = [])"

definition get_sys_lang_posix :: "(string \<Rightarrow> string option) \<Rightarrow> string" where
  "get_sys_lang_posix getenv =
     (let lang = getenv ''LC_ALL'';
          lang = (if null_or_empty lang then getenv ''LC_MESSAGES'' else lang);
          lang = (if null_or_empty lang then getenv ''LANG'' else lang)
      in if null_or_empty lang then DEFAULT_LANGUAGE
         else (case lang of Some v \<Rightarrow> posix_normalize v | None \<Rightarrow> DEFAULT_LANGUAGE))"

subsection \<open>The Apple body\<close>

text \<open>
  The block under \<open>if (CFStringGetCString(...))\<close>, as a function of the C string found in
  the buffer.
\<close>

definition apple_normalize :: "string \<Rightarrow> string" where
  "apple_normalize buffer =
     (let result = std_replace buffer (CHR ''_'') (CHR ''-'') in
      case str_find result (CHR ''-'') 0 of
        Some first_dash \<Rightarrow>
          (case str_find result (CHR ''-'') (first_dash + 1) of
             Some second_dash \<Rightarrow> str_erase result second_dash
           | None \<Rightarrow> result)
      | None \<Rightarrow> result)"

text \<open>
  The Core Foundation calls: \<open>CFLocaleCopyCurrent\<close> gives a null reference (\<open>None\<close>) or
  a locale, here the identifier that \<open>CFLocaleGetIdentifier\<close> reads from it (UTF-16
  units); \<open>CFStringGetCString\<close> gives false (\<open>None\<close>) or fills the buffer with a C string.
\<close>

record cf_api =
  CFLocaleCopyCurrent :: "16 word list option"
  CFStringGetCString :: "16 word list \<Rightarrow> string option"

definition get_sys_lang_apple :: "cf_api \<Rightarrow> string" where
  "get_sys_lang_apple api =
     (case CFLocaleCopyCurrent api of
        None \<Rightarrow> DEFAULT_LANGUAGE
      | Some localeID \<Rightarrow>
          (let result = DEFAULT_LANGUAGE in
           case CFStringGetCString api localeID of
             Some buffer \<Rightarrow> apple_normalize buffer
           | None \<Rightarrow> result))"

subsection \<open>The Windows body\<close>

text \<open>
  \<open>GetUserDefaultLocaleName\<close> gives its return value and the wide string left in the
  buffer. \<open>WideCharToMultiByte\<close>, given the wide string and the size of the destination
  (0 asks for the size needed), gives its return value and the bytes it stored.
\<close>

record win_api =
  GetUserDefaultLocaleName :: "int \<times> 16 word list"
  WideCharToMultiByte :: "16 word list \<Rightarrow> int \<Rightarrow> int \<times> string"

definition get_sys_lang_win32 :: "win_api \<Rightarrow> string" where
  "get_sys_lang_win32 api =
     (let (ret, buffer) = GetUserDefaultLocaleName api in
      if ret = 0 then DEFAULT_LANGUAGE
      else
        let size = fst (WideCharToMultiByte api buffer 0) in
        if size \<le> 0 then DEFAULT_LANGUAGE
        else
          let result = replicate (nat size) (CHR 0x00);
              (written, bytes) = WideCharToMultiByte api buffer size;
              result = take (nat size) (bytes @ drop (length bytes) result)
          in if written \<le> 0 then DEFAULT_LANGUAGE
             else str_resize result (nat (written - 1)))"

subsection \<open>\<open>get_sys_lang\<close>\<close>

text \<open>
  The preprocessor chain \<open>_WIN32\<close>, \<open>__APPLE__\<close>,
  \<open>__linux__ || __unix__ || __ANDROID__\<close>, \<open>#else\<close>: the platform the function is
  compiled for, with the interface of its operating system.
\<close>

datatype platform =
  WIN32 win_api
| APPLE cf_api
| POSIX "string \<Rightarrow> string option"
| OTHER

definition get_sys_lang :: "platform \<Rightarrow> string" where
  "get_sys_lang p =
     (case p of
        WIN32 api \<Rightarrow> get_sys_lang_win32 api
      | APPLE api \<Rightarrow> get_sys_lang_apple api
      | POSIX getenv \<Rightarrow> get_sys_lang_posix getenv
      | OTHER \<Rightarrow> DEFAULT_LANGUAGE)"

section \<open>Vocabulary of the statements\<close>

text \<open>
  The part of a string before the first occurrence of a character (the whole string when
  the character does not occur) and the part after it.
\<close>

definition before_first :: "char \<Rightarrow> string \<Rightarrow> string" where
  "before_first ch s = takeWhile (\<lambda>c. c \<noteq> ch) s"

definition after_first :: "char \<Rightarrow> string \<Rightarrow> string" where
  "after_first ch s = drop 1 (dropWhile (\<lambda>c. c \<noteq> ch) s)"

text \<open>
  The POSIX rule in the words of the specification: \<open>"C"\<close> and \<open>"POSIX"\<close> give the
  fallback; otherwise underscores become hyphens, the characters before the first hyphen
  are lowercased and the characters after it uppercased, and the suffixes from the first
  \<open>.\<close> and from the first \<open>@\<close> are cut off. (A string with no hyphen has no first hyphen:
  its case is left alone.)
\<close>

definition posix_normalize_spec :: "string \<Rightarrow> string" where
  "posix_normalize_spec s =
     (if s = ''C'' \<or> s = ''POSIX'' then ''en-US''
      else
        let r = map (\<lambda>c. if c = CHR ''_'' then CHR ''-'' else c) s;
            r' = (if CHR ''-'' \<in> set r
                  then map tolower (before_first (CHR ''-'') r) @ CHR ''-'' #
                       map toupper (after_first (CHR ''-'') r)
                  else r)
        in before_first (CHR ''@'') (before_first (CHR ''.'') r'))"

text \<open>
  The first of \<open>LC_ALL\<close>, \<open>LC_MESSAGES\<close>, \<open>LANG\<close> that is set and not empty, if any.
\<close>

definition resolved :: "(string \<Rightarrow> string option) \<Rightarrow> string option" where
  "resolved env =
     (case filter (\<lambda>v. v \<noteq> []) (List.map_filter env [''LC_ALL'', ''LC_MESSAGES'', ''LANG'']) of
        [] \<Rightarrow> None
      | v # _ \<Rightarrow> Some v)"

text \<open>Operating-system answers used in the examples.\<close>

definition win_fails_first :: win_api where
  "win_fails_first =
     \<lparr>GetUserDefaultLocaleName = (0, []), WideCharToMultiByte = (\<lambda>_ _. (6, ''en-GB''))\<rparr>"

definition win_fails_size :: win_api where
  "win_fails_size =
     \<lparr>GetUserDefaultLocaleName = (6, [0x65, 0x6E]), WideCharToMultiByte = (\<lambda>_ _. (0, []))\<rparr>"

definition win_fails_convert :: win_api where
  "win_fails_convert =
     \<lparr>GetUserDefaultLocaleName = (6, [0x65, 0x6E]),
      WideCharToMultiByte = (\<lambda>_ n. if n = 0 then (3, []) else (0, []))\<rparr>"

definition cf_no_locale :: cf_api where
  "cf_no_locale = \<lparr>CFLocaleCopyCurrent = None, CFStringGetCString = (\<lambda>_. Some ''de_DE'')\<rparr>"

definition cf_no_cstring :: cf_api where
  "cf_no_cstring = \<lparr>CFLocaleCopyCurrent = Some [0x64, 0x65], CFStringGetCString = (\<lambda>_. None)\<rparr>"

text \<open>Concrete catalogs used below: the scenario of the specification.\<close>

definition en_US :: text_t where "en_US = U ''en-US''"
definition fr_FR :: text_t where "fr_FR = U ''fr-FR''"

definition catalog0 :: "(text_t, 64 word) i18n_lang" where
  "catalog0 = i18n_lang_new en_US"

definition catalog1 :: "(text_t, 64 word) i18n_lang" where
  "catalog1 = set_text catalog0 en_US 1 (U ''Hello'')"

definition catalog2 :: "(text_t, 64 word) i18n_lang" where
  "catalog2 = set_text catalog1 fr_FR 1 (U ''Bonjour'')"

section \<open>Properties of the text catalog\<close>

lemma get_text_value:
  "fst (get_text self lang text_id) =
     (case bucket self lang text_id of
        Some t \<Rightarrow> t
      | None \<Rightarrow> (case bucket self (default_lang self) text_id of
                   Some t \<Rightarrow> t
                 | None \<Rightarrow> get_default_error_text))"
  by (simp add: get_text_def umap_find_def bucket_def split: option.splits)

lemma bucket_set_text:
  "bucket (set_text self lang text_id text) l =
     (if l = lang then (bucket self lang)(text_id \<mapsto> text) else bucket self l)"
  by (auto simp: set_text_def umap_index_def bucket_def split: option.splits)

lemma umap_insert_range_apply:
  "umap_insert_range m kvs k = (case m k of Some v \<Rightarrow> Some v | None \<Rightarrow> map_of kvs k)"
  by (induction kvs arbitrary: m) (auto simp: umap_insert_def split: option.splits)

lemma bucket_set_texts:
  "bucket (set_texts self lang entries) l =
     (if l = lang then umap_insert_range (bucket self lang) entries else bucket self l)"
  by (auto simp: set_texts_def umap_index_def bucket_def split: option.splits)

lemma get_text_object: "snd (get_text self lang text_id) = self"
  by (simp add: get_text_def split: option.splits)

lemma default_lang_exec: "default_lang (exec self c) = default_lang self"
proof (cases c)
  case (Set_text lang text_id t)
  then show ?thesis
    by (simp add: set_text_def umap_index_def split: option.splits prod.splits)
next
  case (Set_texts lang entries)
  then show ?thesis
    by (simp add: set_texts_def umap_index_def split: option.splits prod.splits)
next
  case (Get_text lang text_id)
  then show ?thesis by (simp add: get_text_object)
qed

lemma default_lang_exec_all: "default_lang (exec_all self cs) = default_lang self"
  by (induction cs arbitrary: self) (simp_all add: default_lang_exec)

lemma texts_dom_exec:
  assumes "texts self l \<noteq> None"
  shows "texts (exec self c) l \<noteq> None"
proof (cases c)
  case (Set_text lang text_id t)
  with assms show ?thesis
    by (auto simp: set_text_def umap_index_def split: option.splits prod.splits)
next
  case (Set_texts lang entries)
  with assms show ?thesis
    by (auto simp: set_texts_def umap_index_def split: option.splits prod.splits)
next
  case (Get_text lang text_id)
  with assms show ?thesis by (simp add: get_text_object)
qed

lemma bucket_exec_keeps:
  assumes "bucket self l i \<noteq> None"
  shows "bucket (exec self c) l i \<noteq> None"
proof (cases c)
  case (Set_text lang text_id t)
  with assms show ?thesis by (auto simp: bucket_set_text)
next
  case (Set_texts lang entries)
  with assms show ?thesis
    by (auto simp: bucket_set_texts umap_insert_range_apply split: option.splits)
next
  case (Get_text lang text_id)
  with assms show ?thesis by (simp add: get_text_object)
qed

lemma texts_dom_exec_all:
  "texts self l \<noteq> None \<Longrightarrow> texts (exec_all self cs) l \<noteq> None"
proof (induction cs arbitrary: self)
  case Nil
  then show ?case by simp
next
  case (Cons c cs)
  from Cons.prems have "texts (exec self c) l \<noteq> None"
    by (rule texts_dom_exec)
  then have "texts (exec_all (exec self c) cs) l \<noteq> None"
    by (rule Cons.IH)
  then show ?case by simp
qed

lemma bucket_exec_all_keeps:
  "bucket self l i \<noteq> None \<Longrightarrow> bucket (exec_all self cs) l i \<noteq> None"
proof (induction cs arbitrary: self)
  case Nil
  then show ?case by simp
next
  case (Cons c cs)
  from Cons.prems have "bucket (exec self c) l i \<noteq> None"
    by (rule bucket_exec_keeps)
  then have "bucket (exec_all (exec self c) cs) l i \<noteq> None"
    by (rule Cons.IH)
  then show ?case by simp
qed

text \<open>
  \<open>operator[]\<close> in \<open>set_texts\<close> makes the language a key of \<open>texts_\<close> even when nothing
  is inserted.
\<close>

lemma set_texts_creates_bucket: "texts (set_texts self lang []) lang \<noteq> None"
  by (simp add: set_texts_def umap_index_def split: option.splits)

lemma fr_FR_neq_en_US: "fr_FR \<noteq> en_US"
  by (simp add: fr_FR_def en_US_def U_def)

lemma default_lang_catalogs:
  "default_lang catalog0 = en_US" "default_lang catalog1 = en_US"
  "default_lang catalog2 = en_US"
  using default_lang_exec [of catalog0 "Set_text en_US 1 (U ''Hello'')"]
    default_lang_exec [of catalog1 "Set_text fr_FR 1 (U ''Bonjour'')"]
  by (simp_all add: catalog0_def catalog1_def catalog2_def i18n_lang_new_def)

lemma bucket_catalog0: "bucket catalog0 l = Map.empty"
  by (simp add: catalog0_def i18n_lang_new_def bucket_def)

lemma bucket_catalog1:
  "bucket catalog1 en_US = [1 \<mapsto> U ''Hello'']" "bucket catalog1 fr_FR = Map.empty"
  using fr_FR_neq_en_US by (simp_all add: catalog1_def bucket_set_text bucket_catalog0)

lemma bucket_catalog2:
  "bucket catalog2 en_US = [1 \<mapsto> U ''Hello'']" "bucket catalog2 fr_FR = [1 \<mapsto> U ''Bonjour'']"
  using fr_FR_neq_en_US by (simp_all add: catalog2_def bucket_set_text bucket_catalog1)

text \<open>
  C1. \<open>get_text(lang, id)\<close> gives the text stored under \<open>(lang, id)\<close> when the bucket of
  \<open>lang\<close> has \<open>id\<close> (whatever the default language holds for \<open>id\<close>); otherwise the text
  stored under the default language when its bucket has \<open>id\<close>; otherwise, and so only when
  both buckets lack \<open>id\<close>, the error text. The last conjunct reads "only when" on the
  returned value: unless the text found for \<open>id\<close> is itself equal to the error text, a
  result equal to the error text means that both buckets lack \<open>id\<close>.
\<close>

theorem get_text_three_tier:
  "(bucket self lang text_id = Some t \<longrightarrow> fst (get_text self lang text_id) = t) \<and>
   (bucket self lang text_id = None \<and> bucket self (default_lang self) text_id = Some t
      \<longrightarrow> fst (get_text self lang text_id) = t) \<and>
   (bucket self lang text_id = None \<and> bucket self (default_lang self) text_id = None
      \<longrightarrow> fst (get_text self lang text_id) = get_default_error_text) \<and>
   (fst (get_text self lang text_id) = get_default_error_text \<and>
    bucket self lang text_id \<noteq> Some get_default_error_text \<and>
    bucket self (default_lang self) text_id \<noteq> Some get_default_error_text
      \<longrightarrow> bucket self lang text_id = None \<and> bucket self (default_lang self) text_id = None)"
  by (auto simp: get_text_value split: option.splits)

theorem get_text_three_tier_witness:
  "bucket catalog2 fr_FR 1 = Some (U ''Bonjour'') \<and>
   bucket catalog2 (default_lang catalog2) 1 = Some (U ''Hello'') \<and>
   fst (get_text catalog2 fr_FR 1) = U ''Bonjour'' \<and>
   bucket catalog1 fr_FR 1 = None \<and>
   bucket catalog1 (default_lang catalog1) 1 = Some (U ''Hello'') \<and>
   fst (get_text catalog1 fr_FR 1) = U ''Hello'' \<and>
   bucket catalog2 fr_FR 99 = None \<and>
   bucket catalog2 (default_lang catalog2) 99 = None \<and>
   fst (get_text catalog2 fr_FR 99) = get_default_error_text"
proof -
  have a: "bucket catalog2 fr_FR 1 = Some (U ''Bonjour'')"
    by (simp add: bucket_catalog2)
  have b1: "bucket catalog1 fr_FR 1 = None"
    by (simp add: bucket_catalog1)
  have b2: "bucket catalog1 (default_lang catalog1) 1 = Some (U ''Hello'')"
    by (simp add: bucket_catalog1 default_lang_catalogs)
  have c1: "bucket catalog2 fr_FR 99 = None"
    by (simp add: bucket_catalog2)
  have c2: "bucket catalog2 (default_lang catalog2) 99 = None"
    by (simp add: bucket_catalog2 default_lang_catalogs)
  have d: "bucket catalog2 (default_lang catalog2) 1 = Some (U ''Hello'')"
    by (simp add: bucket_catalog2 default_lang_catalogs)
  have r1: "fst (get_text catalog2 fr_FR 1) = U ''Bonjour''"
    using a get_text_three_tier [of catalog2 fr_FR 1 "U ''Bonjour''"] by blast
  have r2: "fst (get_text catalog1 fr_FR 1) = U ''Hello''"
    using b1 b2 get_text_three_tier [of catalog1 fr_FR 1 "U ''Hello''"] by blast
  have r3: "fst (get_text catalog2 fr_FR 99) = get_default_error_text"
    using c1 c2 get_text_three_tier [of catalog2 fr_FR 99] by blast
  from a d r1 b1 b2 r2 c1 c2 r3 show ?thesis
    by blast
qed

text \<open>
  C3. After \<open>set_texts(lang, entries)\<close>, an id that the bucket of \<open>lang\<close> already had
  keeps its text, and an id of \<open>entries\<close> that the bucket did not have is there with the
  text \<open>entries\<close> gives it. (The keys of \<open>entries\<close>, a map, are pairwise distinct.)
\<close>

theorem set_texts_keeps_and_adds:
  assumes "distinct (map fst entries)"
  shows "(bucket self lang text_id = Some t \<longrightarrow>
            bucket (set_texts self lang entries) lang text_id = Some t) \<and>
         (bucket self lang text_id = None \<and> (text_id, t) \<in> set entries \<longrightarrow>
            bucket (set_texts self lang entries) lang text_id = Some t)"
  using assms by (simp add: bucket_set_texts umap_insert_range_apply)

theorem set_texts_keeps_and_adds_witness:
  "distinct (map fst [(1 :: 64 word, U ''Salut''), (2, U ''Merci'')]) \<and>
   bucket catalog2 fr_FR 1 = Some (U ''Bonjour'') \<and>
   bucket (set_texts catalog2 fr_FR [(1, U ''Salut''), (2, U ''Merci'')]) fr_FR 1
     = Some (U ''Bonjour'') \<and>
   bucket catalog2 fr_FR 2 = None \<and>
   (2, U ''Merci'') \<in> set [(1 :: 64 word, U ''Salut''), (2, U ''Merci'')] \<and>
   bucket (set_texts catalog2 fr_FR [(1, U ''Salut''), (2, U ''Merci'')]) fr_FR 2
     = Some (U ''Merci'')"
proof -
  have d: "distinct (map fst [(1 :: 64 word, U ''Salut''), (2, U ''Merci'')])"
    by simp
  have a: "bucket catalog2 fr_FR 1 = Some (U ''Bonjour'')"
    by (simp add: bucket_catalog2)
  have b: "bucket catalog2 fr_FR 2 = None"
    by (simp add: bucket_catalog2)
  have m: "(2, U ''Merci'') \<in> set [(1 :: 64 word, U ''Salut''), (2, U ''Merci'')]"
    by simp
  show ?thesis
    using d a b m
      set_texts_keeps_and_adds [OF d, of catalog2 fr_FR 1 "U ''Bonjour''"]
      set_texts_keeps_and_adds [OF d, of catalog2 fr_FR 2 "U ''Merci''"]
    by simp
qed

text \<open>
  C4. \<open>set_text(lang, id, t)\<close> followed by \<open>get_text(lang, id)\<close> gives \<open>t\<close>, whatever the
  catalog held before.
\<close>

theorem set_text_then_get_text:
  "fst (get_text (set_text self lang text_id t) lang text_id) = t"
  by (simp add: get_text_value bucket_set_text)

text \<open>
  C8. \<open>get_default_error_text()\<close> is the constant \<open>U"TEXT_NOT_FOUND"\<close>: it has no
  argument and reads no object. When neither the bucket of \<open>lang\<close> nor the bucket of the
  default language has \<open>id\<close>, \<open>get_text(lang, id)\<close> is that constant.
\<close>

theorem get_text_sentinel:
  "get_default_error_text = U ''TEXT_NOT_FOUND'' \<and>
   (bucket self lang text_id = None \<and> bucket self (default_lang self) text_id = None
      \<longrightarrow> fst (get_text self lang text_id) = get_default_error_text
          \<and> fst (get_text self lang text_id) = U ''TEXT_NOT_FOUND'')"
  by (simp add: get_text_value get_default_error_text_def)

theorem get_text_sentinel_witness:
  "bucket catalog1 fr_FR 7 = None \<and> bucket catalog1 (default_lang catalog1) 7 = None \<and>
   fst (get_text catalog1 fr_FR 7) = U ''TEXT_NOT_FOUND''"
proof -
  have a: "bucket catalog1 fr_FR 7 = None"
    by (simp add: bucket_catalog1)
  have b: "bucket catalog1 (default_lang catalog1) 7 = None"
    by (simp add: bucket_catalog1 default_lang_catalogs)
  show ?thesis
    using a b get_text_sentinel [of catalog1 fr_FR 7] by simp
qed

text \<open>
  C9. The default language is the one given to the constructor, and no call of the
  public surface (\<open>set_text\<close>, \<open>set_texts\<close>, \<open>get_text\<close>), nor any sequence of them,
  changes it. Nothing is ever deleted: a language that is a key of \<open>texts_\<close> stays one,
  and an id that a bucket has stays in it.
\<close>

theorem default_lang_invariant:
  "default_lang (i18n_lang_new dl :: ('l, 'i) i18n_lang) = dl \<and>
   default_lang (i18n_lang_new_texts dl ts) = dl \<and>
   default_lang (set_text self lang text_id t) = default_lang self \<and>
   default_lang (set_texts self lang entries) = default_lang self \<and>
   default_lang (snd (get_text self lang text_id)) = default_lang self \<and>
   default_lang (exec_all self cs) = default_lang self \<and>
   (texts self l \<noteq> None \<longrightarrow> texts (exec_all self cs) l \<noteq> None) \<and>
   (bucket self l i \<noteq> None \<longrightarrow> bucket (exec_all self cs) l i \<noteq> None)"
  using default_lang_exec [of self "Set_text lang text_id t"]
    default_lang_exec [of self "Set_texts lang entries"]
    default_lang_exec [of self "Get_text lang text_id"]
    texts_dom_exec_all [of self l cs] bucket_exec_all_keeps [of self l i cs]
  by (simp add: i18n_lang_new_def i18n_lang_new_texts_def default_lang_exec_all)

theorem default_lang_invariant_witness:
  "texts catalog1 en_US \<noteq> None \<and> bucket catalog1 en_US 1 \<noteq> None \<and>
   default_lang
     (exec_all catalog1
        [Set_text fr_FR 1 (U ''Bonjour''), Get_text fr_FR 99, Set_texts en_US [(1, U ''Hi'')]])
     = default_lang catalog1 \<and>
   texts
     (exec_all catalog1
        [Set_text fr_FR 1 (U ''Bonjour''), Get_text fr_FR 99, Set_texts en_US [(1, U ''Hi'')]])
     en_US \<noteq> None \<and>
   bucket
     (exec_all catalog1
        [Set_text fr_FR 1 (U ''Bonjour''), Get_text fr_FR 99, Set_texts en_US [(1, U ''Hi'')]])
     en_US 1 \<noteq> None"
proof -
  have b: "bucket catalog1 en_US 1 \<noteq> None"
    by (simp add: bucket_catalog1)
  then have a: "texts catalog1 en_US \<noteq> None"
    by (auto simp: bucket_def split: option.splits)
  show ?thesis
    using a b
      default_lang_invariant [of en_US Map.empty catalog1 en_US 1 "[]" "[]"
        "[Set_text fr_FR 1 (U ''Bonjour''), Get_text fr_FR 99, Set_texts en_US [(1, U ''Hi'')]]"
        en_US 1]
    by blast
qed

text \<open>
  C10. \<open>get_text\<close> leaves the object as it found it: the language-to-text mapping and the
  default language are the same after the call. A requested language that is not a key of
  \<open>texts_\<close> is not made one.
\<close>

theorem get_text_pure_observer:
  "snd (get_text self lang text_id) = self \<and>
   texts (snd (get_text self lang text_id)) = texts self \<and>
   default_lang (snd (get_text self lang text_id)) = default_lang self \<and>
   (texts self lang = None \<longrightarrow> texts (snd (get_text self lang text_id)) lang = None)"
  by (simp add: get_text_object)

theorem get_text_pure_observer_witness:
  "texts catalog1 fr_FR = None \<and> texts (snd (get_text catalog1 fr_FR 1)) fr_FR = None"
proof -
  have a: "texts catalog1 fr_FR = None"
    using fr_FR_neq_en_US
    by (simp add: catalog1_def catalog0_def i18n_lang_new_def set_text_def umap_index_def)
  show ?thesis
    using a get_text_pure_observer [of catalog1 fr_FR 1] by simp
qed

section \<open>Properties of the locale resolver\<close>

text \<open>What \<open>find\<close>, \<open>erase\<close>, \<open>substr\<close> and \<open>transform\<close> compute, on the split of a string at a character.\<close>

lemma find_scan_eq:
  "find_scan ch s i =
     (if ch \<in> set s then Some (i + length (takeWhile (\<lambda>c. c \<noteq> ch) s)) else None)"
  by (induction s arbitrary: i) auto

lemma str_find_0:
  "str_find s ch 0 = (if ch \<in> set s then Some (length (before_first ch s)) else None)"
  by (simp add: str_find_def find_scan_eq before_first_def)

lemma split_at_first:
  "ch \<in> set s \<Longrightarrow> s = before_first ch s @ ch # after_first ch s"
proof -
  assume a: "ch \<in> set s"
  then have "dropWhile (\<lambda>c. c \<noteq> ch) s \<noteq> []" by simp
  moreover have "hd (dropWhile (\<lambda>c. c \<noteq> ch) s) = ch"
    using a hd_dropWhile [of "\<lambda>c. c \<noteq> ch" s] by auto
  ultimately have "dropWhile (\<lambda>c. c \<noteq> ch) s = ch # after_first ch s"
    by (cases "dropWhile (\<lambda>c. c \<noteq> ch) s") (simp_all add: after_first_def)
  then show ?thesis
    using takeWhile_dropWhile_id [of "\<lambda>c. c \<noteq> ch" s] by (simp add: before_first_def)
qed

lemma before_first_id: "ch \<notin> set s \<Longrightarrow> before_first ch s = s"
  by (auto simp: before_first_def)

lemma drop_after_first:
  assumes "ch \<in> set s"
  shows "drop (length (before_first ch s) + 1) s = after_first ch s"
proof -
  have "drop (length (before_first ch s) + 1) (before_first ch s @ ch # after_first ch s)
          = after_first ch s"
    by simp
  with split_at_first [OF assms] show ?thesis by simp
qed

lemma str_find_second:
  assumes "ch \<in> set s"
  shows "str_find s ch (length (before_first ch s) + 1) =
           (if ch \<in> set (after_first ch s)
            then Some (length (before_first ch s) + 1
                        + length (before_first ch (after_first ch s)))
            else None)"
  unfolding str_find_def drop_after_first [OF assms] find_scan_eq
  by (simp add: before_first_def)

lemma strip_eq:
  "(case str_find x ch 0 of Some p \<Rightarrow> str_substr0 x p | None \<Rightarrow> x) = before_first ch x"
proof (cases "ch \<in> set x")
  case True
  have "take (length (before_first ch x)) (before_first ch x @ ch # after_first ch x)
          = before_first ch x"
    by simp
  with split_at_first [OF True] have "take (length (before_first ch x)) x = before_first ch x"
    by simp
  with True show ?thesis by (simp add: str_find_0 str_substr0_def)
next
  case False
  then show ?thesis by (simp add: str_find_0 before_first_id)
qed

lemma recase_eq:
  assumes "ch \<in> set r"
  shows "(if length (before_first ch r) + 1 < length r
          then transform_range g (length (before_first ch r) + 1) (length r)
                 (transform_range f 0 (length (before_first ch r)) r)
          else r) =
         (if after_first ch r \<noteq> []
          then map f (before_first ch r) @ ch # map g (after_first ch r)
          else r)"
proof -
  define b where "b = before_first ch r"
  define a where "a = after_first ch r"
  have r: "r = b @ ch # a"
    using split_at_first [OF assms] by (simp add: b_def a_def)
  have len: "length b + 1 < length r \<longleftrightarrow> a \<noteq> []"
    by (simp add: r)
  have t1: "transform_range f 0 (length b) r = map f b @ ch # a"
    by (simp add: transform_range_def r)
  have t2: "transform_range g (length b + 1) (length r) (map f b @ ch # a)
              = map f b @ ch # map g a"
    by (simp add: transform_range_def r)
  show ?thesis
    unfolding b_def [symmetric] a_def [symmetric] len t1 t2 ..
qed

lemma posix_normalize_eq:
  "posix_normalize s =
     (if s = ''C'' \<or> s = ''POSIX'' then ''en-US''
      else
        let r = map (\<lambda>c. if c = CHR ''_'' then CHR ''-'' else c) s;
            r' = (if CHR ''-'' \<in> set r \<and> after_first (CHR ''-'') r \<noteq> []
                  then map tolower (before_first (CHR ''-'') r) @ CHR ''-'' #
                       map toupper (after_first (CHR ''-'') r)
                  else r)
        in before_first (CHR ''@'') (before_first (CHR ''.'') r'))"
proof (cases "s = ''C'' \<or> s = ''POSIX''")
  case True
  then show ?thesis by (auto simp add: posix_normalize_def DEFAULT_LANGUAGE_def)
next
  case False
  define r where "r = std_replace s (CHR ''_'') (CHR ''-'')"
  define r' where "r' = (case str_find r (CHR ''-'') 0 of
                 Some dash_pos \<Rightarrow>
                   if dash_pos + 1 < length r
                   then transform_range toupper (dash_pos + 1) (length r)
                          (transform_range tolower 0 dash_pos r)
                   else r
               | None \<Rightarrow> r)"
  have r'_eq: "r' = (if CHR ''-'' \<in> set r \<and> after_first (CHR ''-'') r \<noteq> []
                  then map tolower (before_first (CHR ''-'') r) @ CHR ''-'' #
                       map toupper (after_first (CHR ''-'') r)
                  else r)"
  proof (cases "CHR ''-'' \<in> set r")
    case True
    then show ?thesis
      using recase_eq [OF True, of toupper tolower]
      by (simp add: r'_def str_find_0)
  next
    case False
    then show ?thesis by (simp add: r'_def str_find_0)
  qed
  have "posix_normalize s = before_first (CHR ''@'') (before_first (CHR ''.'') r')"
    using False
    by (simp add: posix_normalize_def Let_def r_def [symmetric] r'_def [symmetric] strip_eq)
  with False show ?thesis
    by (simp add: Let_def r'_eq r_def std_replace_def)
qed

lemma apple_normalize_eq:
  "apple_normalize s =
     (let r = map (\<lambda>c. if c = CHR ''_'' then CHR ''-'' else c) s in
      if CHR ''-'' \<in> set r \<and> CHR ''-'' \<in> set (after_first (CHR ''-'') r)
      then before_first (CHR ''-'') r @ CHR ''-'' #
           before_first (CHR ''-'') (after_first (CHR ''-'') r)
      else r)"
proof -
  define r where "r = std_replace s (CHR ''_'') (CHR ''-'')"
  define b where "b = before_first (CHR ''-'') r"
  define a where "a = after_first (CHR ''-'') r"
  have rmap: "map (\<lambda>c. if c = CHR ''_'' then CHR ''-'' else c) s = r"
    by (simp add: r_def std_replace_def)
  have code: "apple_normalize s =
      (case str_find r (CHR ''-'') 0 of
        Some first_dash \<Rightarrow>
          (case str_find r (CHR ''-'') (first_dash + 1) of
             Some second_dash \<Rightarrow> str_erase r second_dash
           | None \<Rightarrow> r)
      | None \<Rightarrow> r)"
    unfolding apple_normalize_def Let_def r_def ..
  have goal: "apple_normalize s =
      (if CHR ''-'' \<in> set r \<and> CHR ''-'' \<in> set a
       then b @ CHR ''-'' # before_first (CHR ''-'') a else r)"
  proof (cases "CHR ''-'' \<in> set r")
    case False
    then show ?thesis by (simp add: code str_find_0)
  next
    case True
    have r: "r = b @ CHR ''-'' # a"
      using split_at_first [OF True] by (simp add: b_def a_def)
    have first: "str_find r (CHR ''-'') 0 = Some (length b)"
      using True by (simp add: str_find_0 b_def)
    show ?thesis
    proof (cases "CHR ''-'' \<in> set a")
      case False
      then have "str_find r (CHR ''-'') (length b + 1) = None"
        using str_find_second [OF True] by (simp add: a_def b_def)
      with False show ?thesis by (simp add: code first)
    next
      case Ta: True
      have second: "str_find r (CHR ''-'') (length b + 1)
                      = Some (length b + 1 + length (before_first (CHR ''-'') a))"
        using str_find_second [OF True] Ta by (simp add: a_def b_def)
      have "take (length (before_first (CHR ''-'') a)) a = before_first (CHR ''-'') a"
        using split_at_first [OF Ta] by (metis append_eq_conv_conj)
      then have "take (length b + 1 + length (before_first (CHR ''-'') a)) (b @ CHR ''-'' # a)
              = b @ CHR ''-'' # before_first (CHR ''-'') a"
        by simp
      then have "str_erase r (length b + 1 + length (before_first (CHR ''-'') a))
              = b @ CHR ''-'' # before_first (CHR ''-'') a"
        using r by (simp add: str_erase_def)
      with True Ta second show ?thesis by (simp add: code first)
    qed
  qed
  show ?thesis
    unfolding Let_def rmap by (simp add: goal a_def b_def)
qed


lemma get_sys_lang_posix_resolved:
  "get_sys_lang_posix env =
     (case resolved env of None \<Rightarrow> DEFAULT_LANGUAGE | Some v \<Rightarrow> posix_normalize v)"
  by (auto simp: get_sys_lang_posix_def resolved_def null_or_empty_def Let_def
        split: option.splits)

lemmas char_case_defs =
  before_first_def after_first_def tolower_def toupper_def upper_letters_def lower_letters_def

text \<open>
  C2. The rule is: \<open>"C"\<close> and \<open>"POSIX"\<close> give \<open>"en-US"\<close>; otherwise underscores
  become hyphens, the characters before the first hyphen are lowercased and those after
  it uppercased, and the suffixes from the first \<open>.\<close> and the first \<open>@\<close> are cut off.
  The source says the same of itself (the note "language code lowercase, country code
  uppercase" on the function, and the comment above the case change), but it changes case
  only under the guard \<open>dash_pos + 1 < result.size()\<close>, which also skips the lowercase
  pass when the first hyphen is the last character: for \<open>EN_\<close> it returns \<open>EN-\<close>, where
  the rule gives \<open>en-\<close>.
\<close>

theorem posix_normalize_trailing_hyphen:
  "posix_normalize ''EN_'' = ''EN-'' \<and> posix_normalize_spec ''EN_'' = ''en-'' \<and>
   posix_normalize ''EN_'' \<noteq> posix_normalize_spec ''EN_'' \<and>
   get_sys_lang (POSIX [''LANG'' \<mapsto> ''EN_'']) = ''EN-''"
proof -
  have "get_sys_lang (POSIX [''LANG'' \<mapsto> ''EN_'']) = posix_normalize ''EN_''"
    by (simp add: get_sys_lang_def get_sys_lang_posix_resolved resolved_def)
  then show ?thesis
    by (simp add: posix_normalize_eq posix_normalize_spec_def char_case_defs)
qed

text \<open>
  C5. On a POSIX-class system the value \<open>get_sys_lang\<close> works on is that of the first of
  \<open>LC_ALL\<close>, \<open>LC_MESSAGES\<close>, \<open>LANG\<close> (in this order) that is set and not empty; when none
  is, the result is \<open>"en-US"\<close>.
\<close>

theorem get_sys_lang_posix_priority:
  "(env ''LC_ALL'' = Some v \<and> v \<noteq> [] \<longrightarrow> get_sys_lang (POSIX env) = posix_normalize v) \<and>
   ((env ''LC_ALL'' = None \<or> env ''LC_ALL'' = Some []) \<and>
    env ''LC_MESSAGES'' = Some v \<and> v \<noteq> []
      \<longrightarrow> get_sys_lang (POSIX env) = posix_normalize v) \<and>
   ((env ''LC_ALL'' = None \<or> env ''LC_ALL'' = Some []) \<and>
    (env ''LC_MESSAGES'' = None \<or> env ''LC_MESSAGES'' = Some []) \<and>
    env ''LANG'' = Some v \<and> v \<noteq> []
      \<longrightarrow> get_sys_lang (POSIX env) = posix_normalize v) \<and>
   ((env ''LC_ALL'' = None \<or> env ''LC_ALL'' = Some []) \<and>
    (env ''LC_MESSAGES'' = None \<or> env ''LC_MESSAGES'' = Some []) \<and>
    (env ''LANG'' = None \<or> env ''LANG'' = Some [])
      \<longrightarrow> get_sys_lang (POSIX env) = ''en-US'') \<and>
   get_sys_lang (POSIX env) =
     (case resolved env of None \<Rightarrow> ''en-US'' | Some v \<Rightarrow> posix_normalize v)"
proof -
  have eq: "get_sys_lang (POSIX env) =
              (case resolved env of None \<Rightarrow> ''en-US'' | Some v \<Rightarrow> posix_normalize v)"
    unfolding get_sys_lang_def get_sys_lang_posix_resolved DEFAULT_LANGUAGE_def by simp
  show ?thesis
    unfolding eq by (auto simp: resolved_def)
qed

theorem get_sys_lang_posix_priority_witness:
  "get_sys_lang (POSIX [''LC_ALL'' \<mapsto> ''fr_FR@euro'', ''LANG'' \<mapsto> ''zh_CN.UTF-8''])
     = posix_normalize ''fr_FR@euro'' \<and>
   get_sys_lang
     (POSIX [''LC_ALL'' \<mapsto> [], ''LC_MESSAGES'' \<mapsto> ''de_DE.UTF-8'', ''LANG'' \<mapsto> ''zh_CN''])
     = posix_normalize ''de_DE.UTF-8'' \<and>
   get_sys_lang (POSIX [''LC_MESSAGES'' \<mapsto> [], ''LANG'' \<mapsto> ''zh_CN.UTF-8''])
     = posix_normalize ''zh_CN.UTF-8'' \<and>
   get_sys_lang (POSIX [''LC_ALL'' \<mapsto> []]) = ''en-US''"
  using
    get_sys_lang_posix_priority
      [of "[''LC_ALL'' \<mapsto> ''fr_FR@euro'', ''LANG'' \<mapsto> ''zh_CN.UTF-8'']" "''fr_FR@euro''"]
    get_sys_lang_posix_priority
      [of "[''LC_ALL'' \<mapsto> [], ''LC_MESSAGES'' \<mapsto> ''de_DE.UTF-8'', ''LANG'' \<mapsto> ''zh_CN'']"
        "''de_DE.UTF-8''"]
    get_sys_lang_posix_priority
      [of "[''LC_MESSAGES'' \<mapsto> [], ''LANG'' \<mapsto> ''zh_CN.UTF-8'']" "''zh_CN.UTF-8''"]
    get_sys_lang_posix_priority [of "[''LC_ALL'' \<mapsto> []]"]
  by simp

text \<open>
  C6. The Apple rule: underscores become hyphens, and when the string then has a second
  hyphen, everything from the second hyphen on is dropped: what is left is the segment
  before the first hyphen, the hyphen, and the segment after it. \<open>zh_Hans_CN\<close> gives
  \<open>zh-Hans\<close>.
\<close>

theorem apple_normalize_segments:
  "apple_normalize s =
     (let r = map (\<lambda>c. if c = CHR ''_'' then CHR ''-'' else c) s in
      if CHR ''-'' \<in> set r \<and> CHR ''-'' \<in> set (after_first (CHR ''-'') r)
      then before_first (CHR ''-'') r @ CHR ''-'' #
           before_first (CHR ''-'') (after_first (CHR ''-'') r)
      else r) \<and>
   apple_normalize ''zh_Hans_CN'' = ''zh-Hans''"
proof -
  have "apple_normalize ''zh_Hans_CN'' = ''zh-Hans''"
    by (simp add: apple_normalize_eq before_first_def after_first_def)
  with apple_normalize_eq [of s] show ?thesis
    by (rule conjI)
qed

theorem apple_normalize_segments_witness:
  "apple_normalize ''en_US'' = ''en-US'' \<and> apple_normalize ''sr_Latn_RS-x'' = ''sr-Latn'' \<and>
   apple_normalize ''fr'' = ''fr''"
  using apple_normalize_segments [of "''en_US''"] apple_normalize_segments [of "''sr_Latn_RS-x''"]
    apple_normalize_segments [of "''fr''"]
  by (simp add: before_first_def after_first_def)

text \<open>
  C7. \<open>get_sys_lang\<close> is a total function to strings: no error value and no exception
  is part of its result (the source declares it \<open>noexcept\<close>). On every failure path it
  gives \<open>"en-US"\<close>: on another platform; on Windows when
  \<open>GetUserDefaultLocaleName\<close> returns 0 or either \<open>WideCharToMultiByte\<close> call returns a
  value \<open>\<le> 0\<close>; on Apple when there is no current locale or \<open>CFStringGetCString\<close> fails;
  on POSIX when none of the three variables is set and not empty, or the chosen value is
  the placeholder \<open>"C"\<close> or \<open>"POSIX"\<close>.
\<close>

theorem get_sys_lang_fallback:
  "get_sys_lang OTHER = ''en-US'' \<and>
   (fst (GetUserDefaultLocaleName w) = 0 \<longrightarrow> get_sys_lang (WIN32 w) = ''en-US'') \<and>
   (fst (WideCharToMultiByte w (snd (GetUserDefaultLocaleName w)) 0) \<le> 0
      \<longrightarrow> get_sys_lang (WIN32 w) = ''en-US'') \<and>
   (fst (WideCharToMultiByte w (snd (GetUserDefaultLocaleName w))
           (fst (WideCharToMultiByte w (snd (GetUserDefaultLocaleName w)) 0))) \<le> 0
      \<longrightarrow> get_sys_lang (WIN32 w) = ''en-US'') \<and>
   (CFLocaleCopyCurrent c = None \<longrightarrow> get_sys_lang (APPLE c) = ''en-US'') \<and>
   (CFLocaleCopyCurrent c = Some localeID \<and> CFStringGetCString c localeID = None
      \<longrightarrow> get_sys_lang (APPLE c) = ''en-US'') \<and>
   (resolved env = None \<longrightarrow> get_sys_lang (POSIX env) = ''en-US'') \<and>
   (resolved env = Some ''C'' \<or> resolved env = Some ''POSIX''
      \<longrightarrow> get_sys_lang (POSIX env) = ''en-US'')"
proof -
  have other: "get_sys_lang OTHER = ''en-US''"
    by (simp add: get_sys_lang_def DEFAULT_LANGUAGE_def)
  have win: "get_sys_lang (WIN32 w) = ''en-US''"
    if "fst (GetUserDefaultLocaleName w) = 0
        \<or> fst (WideCharToMultiByte w (snd (GetUserDefaultLocaleName w)) 0) \<le> 0
        \<or> fst (WideCharToMultiByte w (snd (GetUserDefaultLocaleName w))
             (fst (WideCharToMultiByte w (snd (GetUserDefaultLocaleName w)) 0))) \<le> 0"
    using that
    by (auto simp: get_sys_lang_def get_sys_lang_win32_def DEFAULT_LANGUAGE_def Let_def
          split: prod.splits)
  have apple: "get_sys_lang (APPLE c) = ''en-US''"
    if "CFLocaleCopyCurrent c = None
        \<or> (CFLocaleCopyCurrent c = Some localeID \<and> CFStringGetCString c localeID = None)"
    using that
    by (auto simp: get_sys_lang_def get_sys_lang_apple_def DEFAULT_LANGUAGE_def)
  have posix: "get_sys_lang (POSIX env) = ''en-US''"
    if "resolved env = None \<or> resolved env = Some ''C'' \<or> resolved env = Some ''POSIX''"
    using that
    by (auto simp: get_sys_lang_def get_sys_lang_posix_resolved posix_normalize_def
          DEFAULT_LANGUAGE_def)
  from other win apple posix show ?thesis by blast
qed

theorem get_sys_lang_fallback_witness:
  "get_sys_lang (WIN32 win_fails_first) = ''en-US'' \<and>
   get_sys_lang (WIN32 win_fails_size) = ''en-US'' \<and>
   get_sys_lang (WIN32 win_fails_convert) = ''en-US'' \<and>
   get_sys_lang (APPLE cf_no_locale) = ''en-US'' \<and>
   get_sys_lang (APPLE cf_no_cstring) = ''en-US'' \<and>
   get_sys_lang (POSIX Map.empty) = ''en-US'' \<and>
   get_sys_lang (POSIX [''LC_ALL'' \<mapsto> ''POSIX'', ''LANG'' \<mapsto> ''zh_CN.UTF-8'']) = ''en-US'' \<and>
   get_sys_lang (POSIX [''LANG'' \<mapsto> ''C'']) = ''en-US''"
proof -
  have r0: "resolved Map.empty = None"
    by (simp add: resolved_def)
  have r1: "resolved [''LC_ALL'' \<mapsto> ''POSIX'', ''LANG'' \<mapsto> ''zh_CN.UTF-8''] = Some ''POSIX''"
    by (simp add: resolved_def)
  have r2: "resolved [''LANG'' \<mapsto> ''C''] = Some ''C''"
    by (simp add: resolved_def)
  have w1: "fst (GetUserDefaultLocaleName win_fails_first) = 0"
    by (simp add: win_fails_first_def)
  have w2: "fst (WideCharToMultiByte win_fails_size
                   (snd (GetUserDefaultLocaleName win_fails_size)) 0) \<le> 0"
    by (simp add: win_fails_size_def)
  have w3: "fst (WideCharToMultiByte win_fails_convert
                   (snd (GetUserDefaultLocaleName win_fails_convert))
                   (fst (WideCharToMultiByte win_fails_convert
                      (snd (GetUserDefaultLocaleName win_fails_convert)) 0))) \<le> 0"
    by (simp add: win_fails_convert_def)
  have c1: "CFLocaleCopyCurrent cf_no_locale = None"
    by (simp add: cf_no_locale_def)
  have c2: "CFLocaleCopyCurrent cf_no_cstring = Some [0x64, 0x65] \<and>
            CFStringGetCString cf_no_cstring [0x64, 0x65] = None"
    by (simp add: cf_no_cstring_def)
  show ?thesis
    using r0 r1 r2 w1 w2 w3 c1 c2
      get_sys_lang_fallback [of win_fails_first cf_no_locale _ Map.empty]
      get_sys_lang_fallback [of win_fails_size cf_no_cstring "[0x64, 0x65]"
        "[''LC_ALL'' \<mapsto> ''POSIX'', ''LANG'' \<mapsto> ''zh_CN.UTF-8'']"]
      get_sys_lang_fallback [of win_fails_convert cf_no_cstring "[0x64, 0x65]"
        "[''LANG'' \<mapsto> ''C'']"]
    by blast
qed

end
